theory Spec2Isabelle
  imports Complex_Main
begin

section \<open>The difference area chart visual\<close>

text \<open>
  A shallow embedding of \<^verbatim>\<open>differenceAreaChart.ts\<close>: the geometry class, the
  construction of the view model from a host data view, the resolution of the settings,
  the life-cycle entry point \<^verbatim>\<open>update\<close>, the enumeration of the property pane and
  the hover lookup.

  Conventions. A JavaScript value that may be \<^verbatim>\<open>undefined\<close> or \<^verbatim>\<open>null\<close> where the
  code tests for it is an \<open>option\<close>. A thrown exception is \<open>Inl\<close> of a result type
  \<open>error + 'a\<close>; the only exception the code can raise by itself is the
  \<^verbatim>\<open>TypeError\<close> of a property read on \<^verbatim>\<open>undefined\<close>. Numbers are idealised
  as reals; the code performs no arithmetic on them except the subtraction of the margins
  and the rounding of the hover position. Where several interfaces of the source share a
  field name (\<^verbatim>\<open>values\<close>, \<^verbatim>\<open>source\<close>, \<^verbatim>\<open>identity\<close>), the record fields carry the
  owner as a prefix or suffix.
\<close>

subsection \<open>Host types\<close>

datatype error = TypeError

text \<open>A cell of a column (\<^verbatim>\<open>any\<close> in the source): a number, a text, or one of the two
  absent values of JavaScript.\<close>

datatype PrimitiveValue = Undefined | Null | Number real | Text string

record IViewport =
  height :: real
  width :: real

record IMargin =
  left_margin :: real
  right_margin :: real
  bottom_margin :: real
  top_margin :: real

subsection \<open>Geometry\<close>

record DifferenceAreaChartGeometry =
  margin :: IMargin
  viewportNoMargins :: IViewport

definition getViewportWithNoMargins :: "DifferenceAreaChartGeometry \<Rightarrow> IViewport" where
  "getViewportWithNoMargins g = viewportNoMargins g"

definition getViewport :: "DifferenceAreaChartGeometry \<Rightarrow> IViewport" where
  "getViewport g =
     \<lparr> height = height (viewportNoMargins g) - top_margin (margin g) - bottom_margin (margin g),
       width = width (viewportNoMargins g) - left_margin (margin g) - right_margin (margin g) \<rparr>"

definition getMargin :: "DifferenceAreaChartGeometry \<Rightarrow> IMargin" where
  "getMargin g = margin g"

definition Geometry_init :: "IViewport \<Rightarrow> DifferenceAreaChartGeometry \<Rightarrow> DifferenceAreaChartGeometry" where
  "Geometry_init newViewport g = g\<lparr>viewportNoMargins := newViewport\<rparr>"

definition Geometry_update :: "IViewport \<Rightarrow> DifferenceAreaChartGeometry \<Rightarrow> DifferenceAreaChartGeometry" where
  "Geometry_update newViewport g = g\<lparr>viewportNoMargins := newViewport\<rparr>"

definition isValid :: "DifferenceAreaChartGeometry \<Rightarrow> bool" where
  "isValid g = (let viewport = getViewport g in width viewport > 0 \<and> height viewport > 0)"

text \<open>The margins every instance of the visual is constructed with.\<close>

definition defaultMargin :: IMargin where
  "defaultMargin = \<lparr> left_margin = 45, right_margin = 30, bottom_margin = 10, top_margin = 10 \<rparr>"

subsection \<open>The host's data view\<close>

text \<open>A value type descriptor of the host, kept by name.\<close>

type_synonym ValueType = string

record DataViewMetadataColumn =
  displayName :: string
  format :: "string option"
  type_col :: "ValueType option"
  roles :: "string list"

text \<open>\<open>roles\<close> lists the role names the host maps to true for the column; a column
  with no role table has none.\<close>

record DataViewValueColumn =
  source :: "DataViewMetadataColumn option"
  values_col :: "PrimitiveValue list option"

record DataViewValueColumnGroup =
  values_grp :: "DataViewValueColumn list"
  name_grp :: PrimitiveValue

type_synonym DataViewScopeIdentity = string

record DataViewCategoryColumn =
  source_cat :: "DataViewMetadataColumn option"
  values_cat :: "PrimitiveValue list"
  identity_cat :: "DataViewScopeIdentity list option"

text \<open>The values section is an array of columns with a method \<^verbatim>\<open>grouped()\<close>; the
  field \<open>grouped\<close> is what that method returns.\<close>

record DataViewValueColumns =
  columns :: "DataViewValueColumn list"
  grouped :: "DataViewValueColumnGroup list"

record DataViewCategorical =
  categories :: "DataViewCategoryColumn list option"
  values_section :: "DataViewValueColumns option"

record DataViewObjectPropertyIdentifier =
  objectName :: string
  propertyName :: string

text \<open>
  Modelled from the spec: the host's property store \<^verbatim>\<open>DataViewObjects\<close>, whose
  declaration is not among the sources. It holds the property values the user has set,
  typed as the capabilities of the visual declare them: \<^verbatim>\<open>outline.show\<close> a boolean,
  \<^verbatim>\<open>outline.size\<close> a number, \<^verbatim>\<open>colors.highColor\<close> and \<^verbatim>\<open>colors.lowColor\<close>
  solid fill colours.
\<close>

record DataViewObjects =
  bools :: "DataViewObjectPropertyIdentifier \<rightharpoonup> bool"
  numbers :: "DataViewObjectPropertyIdentifier \<rightharpoonup> real"
  fills :: "DataViewObjectPropertyIdentifier \<rightharpoonup> string"

record DataViewMetadata =
  metadata_columns :: "DataViewMetadataColumn list"
  objects :: "DataViewObjects option"

record DataView =
  metadata :: "DataViewMetadata option"
  categorical :: "DataViewCategorical option"

subsection \<open>The view model\<close>

record DifferenceAreaChartOutlineSettings =
  showOutline :: bool
  size_outline :: real

record DifferenceAreaChartColorSettings =
  highColor :: string
  lowColor :: string

record DifferenceAreaChartSettings =
  outline :: DifferenceAreaChartOutlineSettings
  colors :: DifferenceAreaChartColorSettings

text \<open>
  The value formatter and the tooltip builder are not among the sources. A formatted text
  is kept as the formatter's options together with the value it is applied to, and a
  tooltip, where the builder returns one, as the arguments it was built from.
\<close>

record ValueFormatterOptions =
  format_opt :: "string option"
  allowFormatBeautification :: bool
  columnType :: "ValueType option"

datatype FormattedValue = Formatted ValueFormatterOptions PrimitiveValue

record TooltipSeriesDataItem =
  value_item :: FormattedValue
  metadata_item :: "DataViewValueColumn option"

record TooltipInfo =
  formatStringProp :: DataViewObjectPropertyIdentifier
  categoryValue_tip :: PrimitiveValue
  categoryColumns :: "DataViewCategoryColumn option list"
  seriesData :: "TooltipSeriesDataItem list"

record DifferenceAreaChartDataPoint =
  low :: PrimitiveValue
  high :: PrimitiveValue
  categoryIndex :: nat
  categoryValue :: PrimitiveValue
  tooltipInfo :: TooltipInfo

text \<open>The selector of a selection id, by the identity it was created with.\<close>

datatype Selector = SelectorWithId "DataViewScopeIdentity option" | SelectorNull

record DifferenceAreaChartViewModel =
  settings :: DifferenceAreaChartSettings
  data :: "DifferenceAreaChartDataPoint list"
  selector :: Selector

text \<open>Reading an array at an index: \<^verbatim>\<open>undefined\<close> outside the array.\<close>

definition elementAt :: "'a list \<Rightarrow> int \<Rightarrow> 'a option" where
  "elementAt xs i = (if 0 \<le> i \<and> i < int (length xs) then Some (xs ! nat i) else None)"

definition cellAt :: "PrimitiveValue list \<Rightarrow> nat \<Rightarrow> PrimitiveValue" where
  "cellAt xs i = (if i < length xs then xs ! i else Undefined)"

subsection \<open>Settings\<close>

definition Properties_general_formatString :: DataViewObjectPropertyIdentifier where
  "Properties_general_formatString = \<lparr> objectName = ''general'', propertyName = ''formatString'' \<rparr>"

definition Properties_outline_show :: DataViewObjectPropertyIdentifier where
  "Properties_outline_show = \<lparr> objectName = ''outline'', propertyName = ''show'' \<rparr>"

definition Properties_outline_size :: DataViewObjectPropertyIdentifier where
  "Properties_outline_size = \<lparr> objectName = ''outline'', propertyName = ''size'' \<rparr>"

definition Properties_colors_highColor :: DataViewObjectPropertyIdentifier where
  "Properties_colors_highColor = \<lparr> objectName = ''colors'', propertyName = ''highColor'' \<rparr>"

definition Properties_colors_lowColor :: DataViewObjectPropertyIdentifier where
  "Properties_colors_lowColor = \<lparr> objectName = ''colors'', propertyName = ''lowColor'' \<rparr>"

definition getDefaultColorSettings :: DifferenceAreaChartColorSettings where
  "getDefaultColorSettings = \<lparr> highColor = ''Green'', lowColor = ''Red'' \<rparr>"

definition getDefaultOutlineSettings :: DifferenceAreaChartOutlineSettings where
  "getDefaultOutlineSettings = \<lparr> showOutline = True, size_outline = 2 \<rparr>"

definition getDefaultChartSettings :: DifferenceAreaChartSettings where
  "getDefaultChartSettings =
     \<lparr> outline = getDefaultOutlineSettings, colors = getDefaultColorSettings \<rparr>"

text \<open>
  Modelled from the spec: \<^verbatim>\<open>DataViewObjects.getValue\<close> and
  \<^verbatim>\<open>DataViewObjects.getFillColor\<close>, which are not among the sources. Each gives the
  value found in the property store for the property if one is present, and the default
  it is handed otherwise.
\<close>

definition getValue_bool :: "DataViewObjects \<Rightarrow> DataViewObjectPropertyIdentifier \<Rightarrow> bool \<Rightarrow> bool" where
  "getValue_bool objects' propertyId defaultValue =
     (case bools objects' propertyId of Some v \<Rightarrow> v | None \<Rightarrow> defaultValue)"

definition getValue_number :: "DataViewObjects \<Rightarrow> DataViewObjectPropertyIdentifier \<Rightarrow> real \<Rightarrow> real" where
  "getValue_number objects' propertyId defaultValue =
     (case numbers objects' propertyId of Some v \<Rightarrow> v | None \<Rightarrow> defaultValue)"

definition getFillColor :: "DataViewObjects \<Rightarrow> DataViewObjectPropertyIdentifier \<Rightarrow> string \<Rightarrow> string" where
  "getFillColor objects' propertyId defaultColor =
     (case fills objects' propertyId of Some v \<Rightarrow> v | None \<Rightarrow> defaultColor)"

definition getObjectsFromDataView :: "DataView option \<Rightarrow> DataViewObjects option" where
  "getObjectsFromDataView dataView =
     (case dataView of None \<Rightarrow> None
      | Some dv \<Rightarrow> (case metadata dv of None \<Rightarrow> None | Some m \<Rightarrow> objects m))"

text \<open>\<^verbatim>\<open>parseSettings\<close> always returns the settings object it started from. Its caller
  tests the result for absence, so the result is an optional value here.\<close>

definition parseSettings :: "DataView option \<Rightarrow> DifferenceAreaChartSettings option" where
  "parseSettings dataView =
     (let defaultSettings = getDefaultChartSettings
      in case getObjectsFromDataView dataView of
           None \<Rightarrow> Some defaultSettings
         | Some objects' \<Rightarrow>
             Some \<lparr> outline =
                      \<lparr> showOutline = getValue_bool objects' Properties_outline_show
                                        (showOutline (outline defaultSettings)),
                        size_outline = getValue_number objects' Properties_outline_size
                                         (size_outline (outline defaultSettings)) \<rparr>,
                    colors =
                      \<lparr> highColor = getFillColor objects' Properties_colors_highColor
                                      (highColor (colors defaultSettings)),
                        lowColor = getFillColor objects' Properties_colors_lowColor
                                     (lowColor (colors defaultSettings)) \<rparr> \<rparr>)"

subsection \<open>Data points\<close>

definition hasRole :: "DataViewMetadataColumn \<Rightarrow> string \<Rightarrow> bool" where
  "hasRole column roleName = (roleName \<in> set (roles column))"

text \<open>A value column carries a role when its source metadata declares it.\<close>

definition carriesRole :: "DataViewValueColumn \<Rightarrow> string \<Rightarrow> bool" where
  "carriesRole v roleName = (case source v of None \<Rightarrow> False | Some s \<Rightarrow> hasRole s roleName)"

fun indexOfRoleFrom :: "string \<Rightarrow> int \<Rightarrow> DataViewValueColumn list \<Rightarrow> int" where
  "indexOfRoleFrom roleName i [] = - 1"
| "indexOfRoleFrom roleName i (v # vs) =
     (if carriesRole v roleName then i else indexOfRoleFrom roleName (i + 1) vs)"

text \<open>
  Modelled from the spec: \<^verbatim>\<open>DataRoleHelper.getMeasureIndexOfRole\<close>, which is not among
  the sources. It locates, by the declared role metadata of the columns, the index of the
  column tagged with the role among the value columns of a series group (the first group:
  the groups share one column layout), and is negative when no column carries the role.
\<close>

definition getMeasureIndexOfRole :: "DataViewValueColumnGroup list \<Rightarrow> string \<Rightarrow> int" where
  "getMeasureIndexOfRole grouped' roleName =
     (case grouped' of [] \<Rightarrow> - 1
      | firstGroup # _ \<Rightarrow> indexOfRoleFrom roleName 0 (values_grp firstGroup))"

text \<open>No value column of any series group carries the role.\<close>

definition noColumnCarries :: "DataViewValueColumnGroup list \<Rightarrow> string \<Rightarrow> bool" where
  "noColumnCarries grouped' roleName =
     list_all (\<lambda>g. list_all (\<lambda>v. \<not> carriesRole v roleName) (values_grp g)) grouped'"

text \<open>
  Modelled from the spec: the text \<^verbatim>\<open>valueFormatter.format(null)\<close> gives, the label
  of the synthetic category column used when the data view has no category column.
\<close>

definition format_null :: PrimitiveValue where
  "format_null = Text ''(Blank)''"

text \<open>
  Modelled from the spec: \<^verbatim>\<open>TooltipBuilder.createTooltipInfo\<close>, which is not among
  the sources. It pairs the category label with the formatted measure values, tagged with
  their source column metadata for the lookup of the display names. The display name is
  read from the source metadata of each category column it is handed (this visual hands
  it one, the first of the data view) and of the column of each series item, and the read
  fails where the column or its source is absent.
\<close>

definition createTooltipInfo ::
  "DataViewObjectPropertyIdentifier \<Rightarrow> PrimitiveValue \<Rightarrow> DataViewCategoryColumn option list
     \<Rightarrow> TooltipSeriesDataItem list \<Rightarrow> error + TooltipInfo" where
  "createTooltipInfo formatStringProp' categoryValue' categories' seriesData' =
     (if list_all (\<lambda>c. case c of None \<Rightarrow> False | Some col \<Rightarrow> source_cat col \<noteq> None) categories'
         \<and> list_all (\<lambda>item. case metadata_item item of None \<Rightarrow> False
                                | Some col \<Rightarrow> source col \<noteq> None) seriesData'
      then Inr \<lparr> formatStringProp = formatStringProp',
                 categoryValue_tip = categoryValue',
                 categoryColumns = categories',
                 seriesData = seriesData' \<rparr>
      else Inl TypeError)"

text \<open>The body of the inner loop of \<^verbatim>\<open>parseToDataPoints\<close>: the data point of one
  category position of one series group.\<close>

definition dataPointAt ::
  "DataViewCategorical \<Rightarrow> DataViewCategoryColumn \<Rightarrow> int \<Rightarrow> int \<Rightarrow> DataViewValueColumn list \<Rightarrow> nat
     \<Rightarrow> error + DifferenceAreaChartDataPoint" where
  "dataPointAt dataViewCategorical categories' lowMeasureIndex highMeasureIndex seriesValues categoryIndex' =
     (let categoryValue' = cellAt (values_cat categories') categoryIndex';
          lowMeasure = elementAt seriesValues lowMeasureIndex;
          highMeasure = elementAt seriesValues highMeasureIndex;
          lowValue = (case lowMeasure of None \<Rightarrow> Number 0
                      | Some m \<Rightarrow> (case values_col m of None \<Rightarrow> Number 0
                                   | Some vs \<Rightarrow> cellAt vs categoryIndex'));
          highValue = (case highMeasure of None \<Rightarrow> Number 0
                       | Some m \<Rightarrow> (case values_col m of None \<Rightarrow> Number 0
                                    | Some vs \<Rightarrow> cellAt vs categoryIndex'))
      in case categories dataViewCategorical of
           None \<Rightarrow> Inl TypeError
         | Some cols \<Rightarrow>
             (let categoryColumns' = [elementAt cols 0]
              in case lowMeasure of
                   None \<Rightarrow> Inl TypeError
                 | Some lm \<Rightarrow>
                     (case source lm of
                        None \<Rightarrow> Inl TypeError
                      | Some ls \<Rightarrow>
                          (let formatterLow =
                                 \<lparr> format_opt = format ls, allowFormatBeautification = True,
                                   columnType = type_col ls \<rparr>;
                               highSource = (case highMeasure of None \<Rightarrow> None | Some hm \<Rightarrow> source hm);
                               formatterHigh =
                                 \<lparr> format_opt = (case highSource of None \<Rightarrow> None | Some hs \<Rightarrow> format hs),
                                   allowFormatBeautification = True,
                                   columnType = (case highSource of None \<Rightarrow> None | Some hs \<Rightarrow> type_col hs) \<rparr>;
                               lowValueFormatted = Formatted formatterLow lowValue;
                               highValueFormatted = Formatted formatterHigh highValue;
                               seriesData' =
                                 [\<lparr> value_item = lowValueFormatted, metadata_item = lowMeasure \<rparr>,
                                  \<lparr> value_item = highValueFormatted, metadata_item = highMeasure \<rparr>]
                           in case createTooltipInfo Properties_general_formatString categoryValue'
                                     categoryColumns' seriesData' of
                                Inl e \<Rightarrow> Inl e
                              | Inr tooltipInfo' \<Rightarrow>
                                  Inr \<lparr> low = lowValue, high = highValue,
                                        categoryIndex = categoryIndex',
                                        categoryValue = categoryValue',
                                        tooltipInfo = tooltipInfo' \<rparr>))))"

text \<open>The inner loop, over the category positions still to visit, pushing onto
  \<open>dataPoints\<close>; an exception of the body ends it.\<close>

fun categoryLoop ::
  "(nat \<Rightarrow> error + DifferenceAreaChartDataPoint) \<Rightarrow> nat list \<Rightarrow> DifferenceAreaChartDataPoint list
     \<Rightarrow> error + DifferenceAreaChartDataPoint list" where
  "categoryLoop body [] dataPoints = Inr dataPoints"
| "categoryLoop body (categoryIndex' # rest) dataPoints =
     (case body categoryIndex' of
        Inl e \<Rightarrow> Inl e
      | Inr dataPoint \<Rightarrow> categoryLoop body rest (dataPoints @ [dataPoint]))"

text \<open>The outer loop, over the series groups still to visit, \<open>seriesIndex\<close> being the
  index of the first of them. The bound of the inner loop is the number of values of the
  category column at index \<open>seriesIndex\<close>, and reading it fails when there is no such
  column.\<close>

fun seriesLoop ::
  "DataViewCategorical \<Rightarrow> DataViewCategoryColumn \<Rightarrow> int \<Rightarrow> int \<Rightarrow> nat \<Rightarrow> DataViewValueColumnGroup list
     \<Rightarrow> DifferenceAreaChartDataPoint list \<Rightarrow> error + DifferenceAreaChartDataPoint list" where
  "seriesLoop dataViewCategorical categories' lowMeasureIndex highMeasureIndex seriesIndex [] dataPoints =
     Inr dataPoints"
| "seriesLoop dataViewCategorical categories' lowMeasureIndex highMeasureIndex seriesIndex (grouping # rest) dataPoints =
     (let seriesValues = values_grp grouping
      in case categories dataViewCategorical of
           None \<Rightarrow> Inl TypeError
         | Some cols \<Rightarrow>
             (case elementAt cols (int seriesIndex) of
                None \<Rightarrow> Inl TypeError
              | Some col \<Rightarrow>
                  (case categoryLoop
                          (dataPointAt dataViewCategorical categories' lowMeasureIndex highMeasureIndex seriesValues)
                          [0 ..< length (values_cat col)] dataPoints of
                     Inl e \<Rightarrow> Inl e
                   | Inr dataPoints' \<Rightarrow>
                       seriesLoop dataViewCategorical categories' lowMeasureIndex highMeasureIndex
                         (Suc seriesIndex) rest dataPoints')))"

text \<open>The series groups of the values section; none when the section is absent.\<close>

definition groupedOf :: "DataViewCategorical \<Rightarrow> DataViewValueColumnGroup list" where
  "groupedOf dataViewCategorical =
     (case values_section dataViewCategorical of None \<Rightarrow> [] | Some v \<Rightarrow> grouped v)"

definition parseToDataPoints :: "DataViewCategorical \<Rightarrow> error + DifferenceAreaChartDataPoint list" where
  "parseToDataPoints dataViewCategorical =
     (let categories' =
            (case categories dataViewCategorical of
               Some (c # cs) \<Rightarrow> c
             | _ \<Rightarrow> \<lparr> source_cat = None, values_cat = [format_null], identity_cat = None \<rparr>);
          grouped' = groupedOf dataViewCategorical;
          lowMeasureIndex = getMeasureIndexOfRole grouped' ''Low'';
          highMeasureIndex = getMeasureIndexOfRole grouped' ''High''
      in if lowMeasureIndex \<ge> 0 \<and> highMeasureIndex \<ge> 0
         then seriesLoop dataViewCategorical categories' lowMeasureIndex highMeasureIndex 0 grouped' []
         else Inr [])"

subsection \<open>Building the view model\<close>

definition isDataViewValid :: "DataView option \<Rightarrow> bool" where
  "isDataViewValid dataView =
     (case dataView of
        None \<Rightarrow> False
      | Some dv \<Rightarrow>
          (case categorical dv of
             None \<Rightarrow> False
           | Some c \<Rightarrow>
               (case categories c of
                  None \<Rightarrow> False
                | Some cols \<Rightarrow>
                    metadata dv \<noteq> None \<and> cols \<noteq> [] \<and> values_section c \<noteq> None)))"

definition convertToViewModel :: "DataView option \<Rightarrow> error + DifferenceAreaChartViewModel option" where
  "convertToViewModel dataView =
     (case dataView of
        None \<Rightarrow> Inr None
      | Some dv \<Rightarrow>
          if \<not> isDataViewValid dataView then Inr None
          else
            (case parseSettings dataView of
               None \<Rightarrow> Inr None
             | Some settings' \<Rightarrow>
                 (case categorical dv of
                    None \<Rightarrow> Inl TypeError
                  | Some c \<Rightarrow>
                      (case categories c of
                         None \<Rightarrow> Inl TypeError
                       | Some [] \<Rightarrow> Inl TypeError
                       | Some (c0 # cs) \<Rightarrow>
                           (let selector' =
                                  (case identity_cat c0 of
                                     Some ids \<Rightarrow> SelectorWithId (elementAt ids 0)
                                   | None \<Rightarrow> SelectorNull)
                            in case parseToDataPoints c of
                                 Inl e \<Rightarrow> Inl e
                               | Inr dataPoints \<Rightarrow>
                                   Inr (Some \<lparr> settings = settings', data = dataPoints,
                                               selector = selector' \<rparr>))))))"

subsection \<open>The visual and its life cycle\<close>

text \<open>
  The SVG tree is changed through d3 only. The model keeps the operations performed on
  it, in order, at the granularity of the private methods of the class.
\<close>

datatype DomOp =
    UpdateChartSize IViewport IViewport IMargin
  | RenderPlotArea DifferenceAreaChartViewModel IViewport
  | AddTooltip
  | CleanPlotArea
  | DrawHoverLine DifferenceAreaChartDataPoint
  | DrawHoverLineDataPoints DifferenceAreaChartColorSettings DifferenceAreaChartDataPoint

record DifferenceAreaChart =
  geometry :: DifferenceAreaChartGeometry
  viewModel :: "DifferenceAreaChartViewModel option"
  dom :: "DomOp list"

text \<open>The visual as its constructor and \<^verbatim>\<open>init\<close> leave it.\<close>

definition init :: "IViewport \<Rightarrow> DifferenceAreaChart" where
  "init viewport' =
     \<lparr> geometry = Geometry_init viewport'
                    \<lparr> margin = defaultMargin, viewportNoMargins = \<lparr> height = 0, width = 0 \<rparr> \<rparr>,
       viewModel = None,
       dom = [] \<rparr>"

definition updateChartSize :: "DifferenceAreaChartGeometry \<Rightarrow> DifferenceAreaChart \<Rightarrow> DifferenceAreaChart" where
  "updateChartSize geometry' this =
     (if isValid geometry'
      then this\<lparr>dom := dom this @
             [UpdateChartSize (getViewportWithNoMargins geometry') (getViewport geometry')
                (getMargin geometry')]\<rparr>
      else this)"

definition cleanPlotArea :: "DifferenceAreaChart \<Rightarrow> DifferenceAreaChart" where
  "cleanPlotArea this = this\<lparr>dom := dom this @ [CleanPlotArea]\<rparr>"

definition render ::
  "DifferenceAreaChartViewModel option \<Rightarrow> DifferenceAreaChartGeometry \<Rightarrow> DifferenceAreaChart
     \<Rightarrow> DifferenceAreaChart" where
  "render viewModel' geometry' this =
     (case viewModel' of
        None \<Rightarrow> this
      | Some vm \<Rightarrow>
          if \<not> isValid geometry' then this
          else this\<lparr>dom := dom this @ [RenderPlotArea vm (getViewport geometry'), AddTooltip]\<rparr>)"

record VisualUpdateOptions =
  dataViews :: "DataView option list option"
  viewport :: IViewport

text \<open>
  The guard of \<^verbatim>\<open>update\<close> is \<^verbatim>\<open>!options.dataViews && !options.dataViews[0]\<close>. When
  \<^verbatim>\<open>dataViews\<close> is absent its first operand is true, and the second reads index 0 of
  \<^verbatim>\<open>undefined\<close>, which throws. When \<^verbatim>\<open>dataViews\<close> is an array the first operand is
  false (an array is truthy, the empty one too) and the method goes on without returning.
\<close>

definition update :: "VisualUpdateOptions \<Rightarrow> DifferenceAreaChart \<Rightarrow> error + DifferenceAreaChart" where
  "update options this =
     (case dataViews options of
        None \<Rightarrow> Inl TypeError
      | Some dvs \<Rightarrow>
          (let dataView = (case elementAt dvs 0 of None \<Rightarrow> None | Some d \<Rightarrow> d);
               this1 = this\<lparr>geometry := Geometry_update (viewport options) (geometry this)\<rparr>;
               this2 = updateChartSize (geometry this1) this1
           in case convertToViewModel dataView of
                Inl e \<Rightarrow> Inl e
              | Inr vm \<Rightarrow>
                  (let this3 = this2\<lparr>viewModel := vm\<rparr>
                   in case vm of
                        Some v \<Rightarrow> Inr (render (viewModel this3) (geometry this3) this3)
                      | None \<Rightarrow> Inr (cleanPlotArea this3))))"

subsection \<open>Property enumeration\<close>

datatype PropertyValue = BoolValue bool | NumberValue real | ColorValue string

record VisualObjectInstance =
  selector_inst :: "Selector option"
  objectName_inst :: string
  properties :: "(string \<times> PropertyValue) list"

definition enumerateOutlineOptions :: "DifferenceAreaChartViewModel \<Rightarrow> VisualObjectInstance list" where
  "enumerateOutlineOptions model =
     [\<lparr> selector_inst = None, objectName_inst = ''outline'',
        properties = [(''show'', BoolValue (showOutline (outline (settings model)))),
                      (''size'', NumberValue (size_outline (outline (settings model))))] \<rparr>]"

definition enumerateColorOptions :: "DifferenceAreaChartViewModel \<Rightarrow> VisualObjectInstance list" where
  "enumerateColorOptions model =
     [\<lparr> selector_inst = None, objectName_inst = ''colors'',
        properties = [(''lowColor'', ColorValue (lowColor (colors (settings model)))),
                      (''highColor'', ColorValue (highColor (colors (settings model))))] \<rparr>]"

text \<open>The result is \<open>None\<close> where the method returns nothing (\<^verbatim>\<open>undefined\<close>).\<close>

definition enumerateObjectInstances :: "string \<Rightarrow> DifferenceAreaChart \<Rightarrow> VisualObjectInstance list option" where
  "enumerateObjectInstances objectName' this =
     (case viewModel this of
        None \<Rightarrow> None
      | Some data' \<Rightarrow>
          if objectName' = ''outline'' then Some (enumerateOutlineOptions data')
          else if objectName' = ''colors'' then Some (enumerateColorOptions data')
          else None)"

subsection \<open>Hover lookup\<close>

text \<open>\<^verbatim>\<open>Math.round\<close>: the nearest integer, the larger one at a tie.\<close>

definition Math_round :: "real \<Rightarrow> int" where
  "Math_round x = \<lfloor>x + 1 / 2\<rfloor>"

definition getClosestDataPoint ::
  "real \<Rightarrow> DifferenceAreaChartDataPoint list \<Rightarrow> DifferenceAreaChartDataPoint option" where
  "getClosestDataPoint xIndex points =
     (let closestValueCatIndex = Math_round xIndex in elementAt points closestValueCatIndex)"

text \<open>
  The tooltip delegate that \<^verbatim>\<open>render\<close> binds to the overlay, from the position
  \<open>xIndex\<close> that \<^verbatim>\<open>getXFromCoordinate\<close> recovers by inverting the x-scale (the
  inversion is the host's and is not among the sources). \<open>viewModel'\<close> is the view model
  of the enclosing \<^verbatim>\<open>render\<close>. The hover line and its end points are drawn with the
  view model the visual holds at the time of the event, whose data array is searched for
  the point; reading that array fails when the visual holds no view model. The operations
  kept for them name the data point and the colours; the scales and the x position (the
  index of the point object in that array) are not part of them.
\<close>

definition tooltipInfoDelegate ::
  "real \<Rightarrow> DifferenceAreaChartViewModel \<Rightarrow> DifferenceAreaChart
     \<Rightarrow> error + (DifferenceAreaChart \<times> TooltipInfo option)" where
  "tooltipInfoDelegate xIndex viewModel' this =
     (case getClosestDataPoint xIndex (data viewModel') of
        None \<Rightarrow> Inr (this, None)
      | Some dataPoint \<Rightarrow>
          (case viewModel this of
             None \<Rightarrow> Inl TypeError
           | Some current \<Rightarrow>
               Inr (this\<lparr>dom := dom this @
                      [DrawHoverLine dataPoint,
                       DrawHoverLineDataPoints (colors (settings current)) dataPoint]\<rparr>,
                    Some (tooltipInfo dataPoint))))"

subsection \<open>Example data views\<close>

definition lowColumn :: DataViewMetadataColumn where
  "lowColumn = \<lparr> displayName = ''Low'', format = Some ''0.0'', type_col = Some ''numeric'', roles = [''Low''] \<rparr>"

definition highColumn :: DataViewMetadataColumn where
  "highColumn = \<lparr> displayName = ''High'', format = None, type_col = None, roles = [''High''] \<rparr>"

definition measure :: "DataViewMetadataColumn \<Rightarrow> real list \<Rightarrow> DataViewValueColumn" where
  "measure c vs = \<lparr> source = Some c, values_col = Some (map Number vs) \<rparr>"

definition categoryColumn :: DataViewMetadataColumn where
  "categoryColumn = \<lparr> displayName = ''Category'', format = None, type_col = None, roles = [''Category''] \<rparr>"

definition category :: "string list \<Rightarrow> DataViewCategoryColumn" where
  "category vs = \<lparr> source_cat = Some categoryColumn, values_cat = map Text vs, identity_cat = None \<rparr>"

definition series :: "DataViewValueColumn list \<Rightarrow> DataViewValueColumnGroup" where
  "series cs = \<lparr> values_grp = cs, name_grp = Undefined \<rparr>"

definition categoricalOf :: "DataViewCategoryColumn list \<Rightarrow> DataViewValueColumnGroup list \<Rightarrow> DataViewCategorical" where
  "categoricalOf cats gs =
     \<lparr> categories = Some cats,
       values_section = Some \<lparr> columns = concat (map values_grp gs), grouped = gs \<rparr> \<rparr>"

definition dataViewOf :: "DataViewObjects option \<Rightarrow> DataViewCategorical \<Rightarrow> DataView" where
  "dataViewOf os c = \<lparr> metadata = Some \<lparr> metadata_columns = [], objects = os \<rparr>, categorical = Some c \<rparr>"

text \<open>Categories A, B, C with Low = 1, 2, 1 and High = 3, 3, 4, in one series group.\<close>

definition singleSeries :: DataViewCategorical where
  "singleSeries =
     categoricalOf [category [''A'', ''B'', ''C'']]
       [series [measure lowColumn [1, 2, 1], measure highColumn [3, 3, 4]]]"

text \<open>One category column and two series groups.\<close>

definition twoSeries :: DataViewCategorical where
  "twoSeries =
     categoricalOf [category [''A'']]
       [series [measure lowColumn [1], measure highColumn [3]],
        series [measure lowColumn [2], measure highColumn [5]]]"

text \<open>Two category columns and two series groups.\<close>

definition twoColumns :: DataViewCategorical where
  "twoColumns =
     categoricalOf [category [''A'', ''B''], category [''X'', ''Y'']]
       [series [measure lowColumn [1, 2], measure highColumn [3, 3]],
        series [measure lowColumn [5, 6], measure highColumn [7, 8]]]"

text \<open>Two category columns and two series groups, the second group without columns.\<close>

definition missingLow :: DataViewCategorical where
  "missingLow =
     categoricalOf [category [''A''], category [''X'']]
       [series [measure lowColumn [1], measure highColumn [3]], series []]"

text \<open>One series group, and a category column without source metadata.\<close>

definition bareCategory :: DataViewCategorical where
  "bareCategory =
     categoricalOf [\<lparr> source_cat = None, values_cat = [Text ''A''], identity_cat = None \<rparr>]
       [series [measure lowColumn [1], measure highColumn [3]]]"

text \<open>One series group in which no column carries the role High.\<close>

definition noHighRole :: DataViewCategorical where
  "noHighRole = categoricalOf [category [''A'']] [series [measure lowColumn [1]]]"

text \<open>A property store that hides the outline and sets the high colour, and also holds
  a property the visual does not know.\<close>

definition styledObjects :: DataViewObjects where
  "styledObjects =
     \<lparr> bools = [Properties_outline_show \<mapsto> False],
       numbers = [\<lparr> objectName = ''legend'', propertyName = ''fontSize'' \<rparr> \<mapsto> 9],
       fills = [Properties_colors_highColor \<mapsto> ''Blue''] \<rparr>"

definition plainObjects :: DataViewObjects where
  "plainObjects =
     \<lparr> bools = [Properties_outline_show \<mapsto> False],
       numbers = Map.empty,
       fills = [Properties_colors_highColor \<mapsto> ''Blue''] \<rparr>"

definition smallViewport :: IViewport where
  "smallViewport = \<lparr> height = 15, width = 70 \<rparr>"

definition largeViewport :: IViewport where
  "largeViewport = \<lparr> height = 300, width = 400 \<rparr>"

text \<open>A view model of three data points, with empty tooltips.\<close>

definition examplePoint :: "nat \<Rightarrow> real \<Rightarrow> real \<Rightarrow> DifferenceAreaChartDataPoint" where
  "examplePoint i lo hi =
     \<lparr> low = Number lo, high = Number hi, categoryIndex = i, categoryValue = Undefined,
       tooltipInfo = \<lparr> formatStringProp = Properties_general_formatString,
                       categoryValue_tip = Undefined, categoryColumns = [], seriesData = [] \<rparr> \<rparr>"

definition exampleViewModel :: DifferenceAreaChartViewModel where
  "exampleViewModel =
     \<lparr> settings = getDefaultChartSettings,
       data = [examplePoint 0 1 3, examplePoint 1 2 3, examplePoint 2 1 4],
       selector = SelectorNull \<rparr>"

text \<open>An update with the three-category data view and the styled property store.\<close>

definition styledUpdate :: VisualUpdateOptions where
  "styledUpdate =
     \<lparr> dataViews = Some [Some (dataViewOf (Some styledObjects) singleSeries)],
       viewport = largeViewport \<rparr>"

lemmas example_defs =
  lowColumn_def highColumn_def categoryColumn_def measure_def category_def series_def
  categoricalOf_def dataViewOf_def singleSeries_def twoSeries_def twoColumns_def missingLow_def
  bareCategory_def noHighRole_def
  styledObjects_def plainObjects_def smallViewport_def largeViewport_def
  examplePoint_def exampleViewModel_def

lemmas model_defs =
  parseToDataPoints_def groupedOf_def getMeasureIndexOfRole_def hasRole_def carriesRole_def
  noColumnCarries_def dataPointAt_def createTooltipInfo_def
  elementAt_def cellAt_def convertToViewModel_def isDataViewValid_def parseSettings_def
  getObjectsFromDataView_def getDefaultChartSettings_def getDefaultOutlineSettings_def
  getDefaultColorSettings_def getValue_bool_def getValue_number_def getFillColor_def
  Properties_outline_show_def Properties_outline_size_def Properties_colors_highColor_def
  Properties_colors_lowColor_def Properties_general_formatString_def format_null_def


section \<open>Properties\<close>

subsection \<open>Auxiliary facts\<close>

lemma categoryLoop_all_ok:
  "(\<And>i. i \<in> set idxs \<Longrightarrow> \<exists>p. body i = Inr p \<and> categoryIndex p = i)
     \<Longrightarrow> \<exists>ps. categoryLoop body idxs acc = Inr (acc @ ps) \<and> map categoryIndex ps = idxs"
proof (induction idxs arbitrary: acc)
  case Nil
  then show ?case by simp
next
  case (Cons i idxs)
  from Cons.prems[of i] obtain p where p: "body i = Inr p" "categoryIndex p = i" by auto
  have "\<exists>ps. categoryLoop body idxs (acc @ [p]) = Inr ((acc @ [p]) @ ps) \<and> map categoryIndex ps = idxs"
    by (rule Cons.IH) (simp add: Cons.prems)
  then obtain ps where ps: "categoryLoop body idxs (acc @ [p]) = Inr ((acc @ [p]) @ ps)"
      "map categoryIndex ps = idxs" by blast
  show ?case using p ps by (intro exI[of _ "p # ps"]) simp
qed

lemma parseSettings_Some: "\<exists>s. parseSettings dv = Some s"
  by (cases "getObjectsFromDataView dv") (simp_all add: parseSettings_def Let_def)

lemma dataPointAt_ok:
  assumes "categories dvc = Some (c0 # cs)" and "source_cat c0 = Some src"
    and "elementAt sv lo = Some lm" and "source lm = Some ls"
    and "elementAt sv hi = Some hm" and "source hm = Some hs"
  shows "\<exists>p. dataPointAt dvc cat lo hi sv i = Inr p \<and> categoryIndex p = i"
  using assms by (simp add: dataPointAt_def createTooltipInfo_def elementAt_def Let_def)

lemma indexOfRoleFrom_range:
  "indexOfRoleFrom r i vs = - 1 \<or> (i \<le> indexOfRoleFrom r i vs \<and> indexOfRoleFrom r i vs < i + int (length vs))"
  by (induction vs arbitrary: i) (auto, force+)

lemma elementAt_Cons:
  "0 < k \<Longrightarrow> elementAt (v # vs) k = elementAt vs (k - 1)"
  by (auto simp: elementAt_def nat_diff_distrib' nth_Cons split: nat.splits)

lemma indexOfRoleFrom_found:
  "0 \<le> indexOfRoleFrom r i vs \<Longrightarrow> 0 \<le> i
     \<Longrightarrow> \<exists>v s. elementAt vs (indexOfRoleFrom r i vs - i) = Some v \<and> source v = Some s"
proof (induction vs arbitrary: i)
  case Nil
  then show ?case by simp
next
  case (Cons v vs)
  show ?case
  proof (cases "carriesRole v r")
    case True
    then show ?thesis by (auto simp: elementAt_def carriesRole_def split: option.splits)
  next
    case False
    then have eq: "indexOfRoleFrom r i (v # vs) = indexOfRoleFrom r (i + 1) vs" by simp
    with Cons.prems have nn: "0 \<le> indexOfRoleFrom r (i + 1) vs" by simp
    from indexOfRoleFrom_range[of r "i + 1" vs] nn Cons.prems
    have gt: "i + 1 \<le> indexOfRoleFrom r (i + 1) vs" by auto
    from Cons.IH[OF nn] Cons.prems obtain w s where
      w: "elementAt vs (indexOfRoleFrom r (i + 1) vs - (i + 1)) = Some w" "source w = Some s" by auto
    have "elementAt (v # vs) (indexOfRoleFrom r (i + 1) vs - i) = elementAt vs (indexOfRoleFrom r (i + 1) vs - i - 1)"
      using gt by (intro elementAt_Cons) simp
    then show ?thesis using w eq by (simp add: algebra_simps)
  qed
qed

lemma indexOfRoleFrom_absent:
  "list_all (\<lambda>v. \<not> carriesRole v r) vs \<Longrightarrow> indexOfRoleFrom r i vs = - 1"
  by (induction vs arbitrary: i) simp_all

lemma getMeasureIndexOfRole_absent:
  "noColumnCarries gs r \<Longrightarrow> getMeasureIndexOfRole gs r = - 1"
  by (cases gs) (simp_all add: getMeasureIndexOfRole_def noColumnCarries_def indexOfRoleFrom_absent)

lemma getMeasureIndexOfRole_found:
  assumes "0 \<le> getMeasureIndexOfRole (g # gs) r"
  shows "\<exists>v s. elementAt (values_grp g) (getMeasureIndexOfRole (g # gs) r) = Some v \<and> source v = Some s"
  using indexOfRoleFrom_found[of r 0 "values_grp g"] assms
  by (simp add: getMeasureIndexOfRole_def)

lemma render_viewModel: "viewModel (render vm g this) = viewModel this"
  by (simp add: render_def split: option.split)

lemma cleanPlotArea_viewModel: "viewModel (cleanPlotArea this) = viewModel this"
  by (simp add: cleanPlotArea_def)

lemma convertToViewModel_settings:
  "convertToViewModel dv = Inr (Some vm) \<Longrightarrow> parseSettings dv = Some (settings vm)"
  by (auto simp: convertToViewModel_def Let_def split: option.splits if_splits list.splits sum.splits)

lemma update_viewModel:
  assumes "dataViews options = Some dvs" and "update options this = Inr this'"
  shows "convertToViewModel (case elementAt dvs 0 of None \<Rightarrow> None | Some d \<Rightarrow> d) = Inr (viewModel this')"
  using assms
  by (auto simp: update_def Let_def render_viewModel cleanPlotArea_viewModel split: sum.splits option.splits)

lemma styledUpdate_returns:
  "\<exists>this'. update styledUpdate (init largeViewport) = Inr this' \<and> viewModel this' \<noteq> None"
  by (simp add: styledUpdate_def update_def Let_def example_defs model_defs upt_rec render_viewModel)

lemma update_invalid_dataView_clears:
  assumes "dataViews options = Some dvs"
    and "\<not> isDataViewValid (case elementAt dvs 0 of None \<Rightarrow> None | Some d \<Rightarrow> d)"
  shows "\<exists>this'. update options this = Inr this' \<and> viewModel this' = None
            \<and> dom this' = dom (updateChartSize (Geometry_update (viewport options) (geometry this)) this) @ [CleanPlotArea]"
proof -
  have "convertToViewModel (case elementAt dvs 0 of None \<Rightarrow> None | Some d \<Rightarrow> d) = Inr None"
    using assms(2) by (cases "case elementAt dvs 0 of None \<Rightarrow> None | Some d \<Rightarrow> d")
      (simp_all add: convertToViewModel_def)
  then show ?thesis using assms(1)
    by (simp add: update_def Let_def cleanPlotArea_def updateChartSize_def)
qed

lemma dataPointAt_low_absent:
  "elementAt seriesValues lowMeasureIndex = None
     \<Longrightarrow> dataPointAt dvc cat lowMeasureIndex highMeasureIndex seriesValues i = Inl TypeError"
  by (simp add: dataPointAt_def Let_def split: option.split)

lemma dataPointAt_high_absent:
  "elementAt seriesValues highMeasureIndex = None
     \<Longrightarrow> dataPointAt dvc cat lowMeasureIndex highMeasureIndex seriesValues i = Inl TypeError"
  by (simp add: dataPointAt_def createTooltipInfo_def Let_def split: option.split)

lemma dataPointAt_category_source_absent:
  "categories dvc = Some (c0 # cs) \<Longrightarrow> source_cat c0 = None
     \<Longrightarrow> dataPointAt dvc cat lowMeasureIndex highMeasureIndex seriesValues i = Inl TypeError"
  by (simp add: dataPointAt_def createTooltipInfo_def elementAt_def Let_def split: option.split)

lemma dataPointAt_values_absent:
  assumes "categories dvc = Some (c0 # cs)" and "source_cat c0 = Some src"
    and "elementAt seriesValues lo = Some lm" and "source lm = Some ls"
    and "elementAt seriesValues hi = Some hm" and "source hm = Some hs"
  shows "\<exists>p. dataPointAt dvc cat lo hi seriesValues i = Inr p
           \<and> (values_col lm = None \<longrightarrow> low p = Number 0)
           \<and> (values_col hm = None \<longrightarrow> high p = Number 0)"
  using assms by (auto simp: dataPointAt_def createTooltipInfo_def elementAt_def Let_def)

subsection \<open>Data points of a data view\<close>

text \<open>
  Claim C1, as amended. For a structurally valid data view whose values section has
  exactly one series group and whose first category column has its source metadata, and
  in which the indices of the roles Low and High are both found, \<open>convertToViewModel\<close>
  returns a view model whose data sequence has as many points as the first category
  column has values, and the point at position \<open>i\<close> has the category index \<open>i\<close>.
\<close>

theorem single_series_points:
  assumes valid: "isDataViewValid (Some dv)"
    and cat: "categorical dv = Some dvc"
    and cols: "categories dvc = Some (c0 # cs)"
    and src: "source_cat c0 \<noteq> None"
    and one: "groupedOf dvc = [g]"
    and lo: "0 \<le> getMeasureIndexOfRole (groupedOf dvc) ''Low''"
    and hi: "0 \<le> getMeasureIndexOfRole (groupedOf dvc) ''High''"
  shows "\<exists>vm. convertToViewModel (Some dv) = Inr (Some vm)
           \<and> length (data vm) = length (values_cat c0)
           \<and> (\<forall>i < length (data vm). categoryIndex (data vm ! i) = i)"
proof -
  let ?lo = "getMeasureIndexOfRole [g] ''Low''"
  let ?hi = "getMeasureIndexOfRole [g] ''High''"
  let ?n = "length (values_cat c0)"
  from src obtain cmeta where cmeta: "source_cat c0 = Some cmeta" by auto
  from lo one obtain lm ls where lm: "elementAt (values_grp g) ?lo = Some lm" "source lm = Some ls"
    using getMeasureIndexOfRole_found[of g "[]" "''Low''"] by auto
  from hi one obtain hm hs where hm: "elementAt (values_grp g) ?hi = Some hm" "source hm = Some hs"
    using getMeasureIndexOfRole_found[of g "[]" "''High''"] by auto
  have body: "\<And>i. \<exists>p. dataPointAt dvc c0 ?lo ?hi (values_grp g) i = Inr p \<and> categoryIndex p = i"
    using dataPointAt_ok[OF cols cmeta lm hm] by blast
  obtain ps where ps: "categoryLoop (dataPointAt dvc c0 ?lo ?hi (values_grp g)) [0 ..< ?n] [] = Inr ([] @ ps)"
      "map categoryIndex ps = [0 ..< ?n]"
    using categoryLoop_all_ok[of "[0 ..< ?n]" "dataPointAt dvc c0 ?lo ?hi (values_grp g)" "[]"] body by blast
  have loop: "seriesLoop dvc c0 ?lo ?hi 0 [g] [] = Inr ps"
    using ps cols by (simp add: elementAt_def)
  have parse: "parseToDataPoints dvc = Inr ps"
    using loop lo hi one cols by (simp add: parseToDataPoints_def Let_def)
  obtain s where s: "parseSettings (Some dv) = Some s"
    using parseSettings_Some by blast
  have conv: "convertToViewModel (Some dv) =
      Inr (Some \<lparr> settings = s, data = ps, selector =
         (case identity_cat c0 of Some ids \<Rightarrow> SelectorWithId (elementAt ids 0) | None \<Rightarrow> SelectorNull) \<rparr>)"
    using valid cat cols parse s by (simp add: convertToViewModel_def)
  have len: "length ps = ?n" using ps(2) by (metis length_map length_upt minus_nat.diff_0)
  have idx: "\<forall>i < length ps. categoryIndex (ps ! i) = i"
  proof (intro allI impI)
    fix i assume "i < length ps"
    then have "categoryIndex (ps ! i) = map categoryIndex ps ! i" by simp
    also have "\<dots> = [0 ..< ?n] ! i" using ps(2) by simp
    also have "\<dots> = i" using \<open>i < length ps\<close> len by simp
    finally show "categoryIndex (ps ! i) = i" .
  qed
  show ?thesis using conv len idx by simp
qed

theorem single_series_points_witness:
  "(case convertToViewModel (Some (dataViewOf None singleSeries)) of
      Inr (Some vm) \<Rightarrow> length (data vm) = 3 \<and> map categoryIndex (data vm) = [0, 1, 2]
    | _ \<Rightarrow> False)"
proof -
  let ?c0 = "category [''A'', ''B'', ''C'']"
  let ?g = "series [measure lowColumn [1, 2, 1], measure highColumn [3, 3, 4]]"
  have h: "isDataViewValid (Some (dataViewOf None singleSeries))"
    "categorical (dataViewOf None singleSeries) = Some singleSeries"
    "categories singleSeries = Some (?c0 # [])"
    "source_cat ?c0 \<noteq> None"
    "groupedOf singleSeries = [?g]"
    "0 \<le> getMeasureIndexOfRole (groupedOf singleSeries) ''Low''"
    "0 \<le> getMeasureIndexOfRole (groupedOf singleSeries) ''High''"
    by (simp_all add: example_defs isDataViewValid_def groupedOf_def getMeasureIndexOfRole_def
        hasRole_def carriesRole_def)
  from single_series_points [OF h] obtain vm where
    vm: "convertToViewModel (Some (dataViewOf None singleSeries)) = Inr (Some vm)"
      "length (data vm) = length (values_cat ?c0)"
      "\<forall>i < length (data vm). categoryIndex (data vm ! i) = i" by blast
  have len: "length (data vm) = 3" using vm(2) by (simp add: category_def)
  have "map categoryIndex (data vm) = [0 ..< 3]"
    using vm(3) len by (intro nth_equalityI) auto
  then have "map categoryIndex (data vm) = [0, 1, 2]" by (simp add: upt_rec)
  then show ?thesis using vm(1) len by simp
qed

text \<open>
  With two series groups the claim as stated fails: each group contributes its own run of
  points, so a data view of two categories gives four points, and the category index
  starts again at 0 for the second group. It also fails for a valid data view of one
  series group whose category column has no source metadata: the tooltip of the first
  point cannot be built, and no view model is returned.
\<close>

theorem two_series_points_counterexample:
  "isDataViewValid (Some (dataViewOf None twoColumns))
   \<and> 0 \<le> getMeasureIndexOfRole (groupedOf twoColumns) ''Low''
   \<and> 0 \<le> getMeasureIndexOfRole (groupedOf twoColumns) ''High''
   \<and> categories twoColumns = Some [category [''A'', ''B''], category [''X'', ''Y'']]
   \<and> (case convertToViewModel (Some (dataViewOf None twoColumns)) of
        Inr (Some vm) \<Rightarrow> map categoryIndex (data vm)
      | _ \<Rightarrow> []) = [0, 1, 0, 1]
   \<and> isDataViewValid (Some (dataViewOf None bareCategory))
   \<and> 0 \<le> getMeasureIndexOfRole (groupedOf bareCategory) ''Low''
   \<and> 0 \<le> getMeasureIndexOfRole (groupedOf bareCategory) ''High''
   \<and> convertToViewModel (Some (dataViewOf None bareCategory)) = Inl TypeError"
  by (simp add: example_defs model_defs Let_def upt_rec)

subsection \<open>The guard of update\<close>

text \<open>
  Claim C2, at the input where the code departs from it. When the options carry no
  \<open>dataViews\<close>, \<open>update\<close> does not return: reading index 0 of the absent array in
  its guard raises a type error, whatever the viewport and the state of the visual.
\<close>

theorem update_without_dataViews_throws:
  "update \<lparr> dataViews = None, viewport = viewport' \<rparr> this = Inl TypeError"
  by (simp add: update_def)

subsection \<open>Absent roles\<close>

text \<open>
  Claim C3. When the lookup of the index of the role Low or of the role High fails (the
  index is negative), \<open>parseToDataPoints\<close> returns the empty sequence of data points,
  whatever else the data view holds, and raises no error; and the lookup fails, with the
  same result, when no value column of the series groups carries the role Low or none
  carries the role High.
\<close>

theorem parseToDataPoints_role_absent:
  "(getMeasureIndexOfRole (groupedOf dataViewCategorical) ''Low'' < 0
      \<or> getMeasureIndexOfRole (groupedOf dataViewCategorical) ''High'' < 0
      \<longrightarrow> parseToDataPoints dataViewCategorical = Inr [])
   \<and> (noColumnCarries (groupedOf dataViewCategorical) ''Low''
      \<or> noColumnCarries (groupedOf dataViewCategorical) ''High''
      \<longrightarrow> parseToDataPoints dataViewCategorical = Inr [])"
proof (intro conjI impI)
  assume "getMeasureIndexOfRole (groupedOf dataViewCategorical) ''Low'' < 0
      \<or> getMeasureIndexOfRole (groupedOf dataViewCategorical) ''High'' < 0"
  then show "parseToDataPoints dataViewCategorical = Inr []"
    by (auto simp: parseToDataPoints_def Let_def)
next
  assume "noColumnCarries (groupedOf dataViewCategorical) ''Low''
      \<or> noColumnCarries (groupedOf dataViewCategorical) ''High''"
  then have "getMeasureIndexOfRole (groupedOf dataViewCategorical) ''Low'' < 0
      \<or> getMeasureIndexOfRole (groupedOf dataViewCategorical) ''High'' < 0"
    using getMeasureIndexOfRole_absent by fastforce
  then show "parseToDataPoints dataViewCategorical = Inr []"
    by (auto simp: parseToDataPoints_def Let_def)
qed

theorem parseToDataPoints_role_absent_witness:
  "getMeasureIndexOfRole (groupedOf noHighRole) ''Low'' = 0
   \<and> getMeasureIndexOfRole (groupedOf noHighRole) ''High'' = - 1
   \<and> noColumnCarries (groupedOf noHighRole) ''High''
   \<and> parseToDataPoints noHighRole = Inr []"
proof -
  have idx: "getMeasureIndexOfRole (groupedOf noHighRole) ''Low'' = 0"
     "getMeasureIndexOfRole (groupedOf noHighRole) ''High'' = - 1"
    by (simp_all add: example_defs groupedOf_def getMeasureIndexOfRole_def hasRole_def carriesRole_def)
  have none: "noColumnCarries (groupedOf noHighRole) ''High''"
    by (simp add: example_defs groupedOf_def noColumnCarries_def hasRole_def carriesRole_def)
  from idx have "getMeasureIndexOfRole (groupedOf noHighRole) ''Low'' < 0
     \<or> getMeasureIndexOfRole (groupedOf noHighRole) ''High'' < 0" by simp
  with parseToDataPoints_role_absent [of noHighRole] idx none show ?thesis by simp
qed

subsection \<open>Structural validity\<close>

text \<open>
  Claim C4, at an input where the code departs from it. The data view with one category
  column and two series groups is structurally valid, yet \<open>convertToViewModel\<close>
  returns no view model for it: the bound of the inner loop reads the category column at
  the index of the series group, and there is none at index 1.
\<close>

theorem convertToViewModel_two_series_throws:
  "isDataViewValid (Some (dataViewOf None twoSeries))
   \<and> convertToViewModel (Some (dataViewOf None twoSeries)) = Inl TypeError"
  by (simp add: example_defs model_defs Let_def upt_rec)

subsection \<open>Absent measures\<close>

text \<open>
  Claim C5, at an input where the code departs from it. Both role indices are found, and
  the second series group has no column at the index of the low measure: the construction
  of its data point raises a type error when it reads the source of the absent low
  measure.
\<close>

theorem parseToDataPoints_missing_low_throws:
  "0 \<le> getMeasureIndexOfRole (groupedOf missingLow) ''Low''
   \<and> 0 \<le> getMeasureIndexOfRole (groupedOf missingLow) ''High''
   \<and> parseToDataPoints missingLow = Inl TypeError"
  by (simp add: example_defs model_defs Let_def upt_rec)

subsection \<open>Settings\<close>

text \<open>
  Claim C6. Without a property store the settings are the defaults (outline shown, width
  2, high fill Green, low fill Red). With one, each of the four recognised properties has
  the value of the store when the store has one and the default otherwise; two stores
  that agree on the four recognised properties give the same settings.
\<close>

theorem parseSettings_overlay:
  "(getObjectsFromDataView dataView = None \<longrightarrow>
      parseSettings dataView =
        Some \<lparr> outline = \<lparr> showOutline = True, size_outline = 2 \<rparr>,
               colors = \<lparr> highColor = ''Green'', lowColor = ''Red'' \<rparr> \<rparr>)
   \<and> (getObjectsFromDataView dataView = Some os \<longrightarrow>
      parseSettings dataView =
        Some \<lparr> outline =
                 \<lparr> showOutline = (case bools os Properties_outline_show of Some v \<Rightarrow> v | None \<Rightarrow> True),
                   size_outline = (case numbers os Properties_outline_size of Some v \<Rightarrow> v | None \<Rightarrow> 2) \<rparr>,
               colors =
                 \<lparr> highColor = (case fills os Properties_colors_highColor of Some v \<Rightarrow> v | None \<Rightarrow> ''Green''),
                   lowColor = (case fills os Properties_colors_lowColor of Some v \<Rightarrow> v | None \<Rightarrow> ''Red'') \<rparr> \<rparr>)
   \<and> (getObjectsFromDataView dataView = Some os \<and> getObjectsFromDataView dataView' = Some os'
        \<and> bools os Properties_outline_show = bools os' Properties_outline_show
        \<and> numbers os Properties_outline_size = numbers os' Properties_outline_size
        \<and> fills os Properties_colors_highColor = fills os' Properties_colors_highColor
        \<and> fills os Properties_colors_lowColor = fills os' Properties_colors_lowColor
      \<longrightarrow> parseSettings dataView = parseSettings dataView')"
  by (simp add: parseSettings_def Let_def getDefaultChartSettings_def getDefaultOutlineSettings_def
      getDefaultColorSettings_def getValue_bool_def getValue_number_def getFillColor_def
      split: option.split)

theorem parseSettings_overlay_witness:
  "parseSettings (Some (dataViewOf None singleSeries)) =
     Some \<lparr> outline = \<lparr> showOutline = True, size_outline = 2 \<rparr>,
            colors = \<lparr> highColor = ''Green'', lowColor = ''Red'' \<rparr> \<rparr>
   \<and> parseSettings (Some (dataViewOf (Some styledObjects) singleSeries)) =
     Some \<lparr> outline = \<lparr> showOutline = False, size_outline = 2 \<rparr>,
            colors = \<lparr> highColor = ''Blue'', lowColor = ''Red'' \<rparr> \<rparr>
   \<and> parseSettings (Some (dataViewOf (Some styledObjects) singleSeries)) =
     parseSettings (Some (dataViewOf (Some plainObjects) singleSeries))"
proof -
  let ?d1 = "Some (dataViewOf None singleSeries)"
  let ?d2 = "Some (dataViewOf (Some styledObjects) singleSeries)"
  let ?d3 = "Some (dataViewOf (Some plainObjects) singleSeries)"
  have h1: "getObjectsFromDataView ?d1 = None"
    and h2: "getObjectsFromDataView ?d2 = Some styledObjects"
    and h3: "getObjectsFromDataView ?d3 = Some plainObjects"
    by (simp_all add: getObjectsFromDataView_def dataViewOf_def)
  have agree:
    "bools styledObjects Properties_outline_show = bools plainObjects Properties_outline_show"
    "numbers styledObjects Properties_outline_size = numbers plainObjects Properties_outline_size"
    "fills styledObjects Properties_colors_highColor = fills plainObjects Properties_colors_highColor"
    "fills styledObjects Properties_colors_lowColor = fills plainObjects Properties_colors_lowColor"
    by (simp_all add: styledObjects_def plainObjects_def Properties_outline_size_def)
  have c1: "parseSettings ?d1 =
     Some \<lparr> outline = \<lparr> showOutline = True, size_outline = 2 \<rparr>,
            colors = \<lparr> highColor = ''Green'', lowColor = ''Red'' \<rparr> \<rparr>"
    using parseSettings_overlay [of ?d1 styledObjects ?d1 styledObjects] h1 by simp
  have c2: "parseSettings ?d2 =
     Some \<lparr> outline = \<lparr> showOutline = False, size_outline = 2 \<rparr>,
            colors = \<lparr> highColor = ''Blue'', lowColor = ''Red'' \<rparr> \<rparr>"
    using parseSettings_overlay [of ?d2 styledObjects ?d3 plainObjects] h2
    by (simp add: styledObjects_def Properties_outline_show_def Properties_outline_size_def
        Properties_colors_highColor_def Properties_colors_lowColor_def)
  have c3: "parseSettings ?d2 = parseSettings ?d3"
    using parseSettings_overlay [of ?d2 styledObjects ?d3 plainObjects] h2 h3 agree by blast
  show ?thesis by (intro conjI) (rule c1, rule c2, rule c3)
qed

subsection \<open>Property enumeration\<close>

text \<open>
  Claim C7. After an update that has built a view model, enumerating the object
  \<open>outline\<close> returns exactly the show and size values that \<open>parseSettings\<close>
  resolved from the data view of that update, enumerating \<open>colors\<close> returns exactly
  the low and high fill colours, and any other object name returns nothing; when the
  visual holds no view model, every enumeration returns nothing.
\<close>

theorem enumerate_after_update:
  "(dataViews options = Some dvs \<and> update options this = Inr this' \<and> viewModel this' \<noteq> None \<longrightarrow>
      (\<exists>s. parseSettings (case elementAt dvs 0 of None \<Rightarrow> None | Some d \<Rightarrow> d) = Some s
         \<and> enumerateObjectInstances ''outline'' this' =
             Some [\<lparr> selector_inst = None, objectName_inst = ''outline'',
                     properties = [(''show'', BoolValue (showOutline (outline s))),
                                   (''size'', NumberValue (size_outline (outline s)))] \<rparr>]
         \<and> enumerateObjectInstances ''colors'' this' =
             Some [\<lparr> selector_inst = None, objectName_inst = ''colors'',
                     properties = [(''lowColor'', ColorValue (lowColor (colors s))),
                                   (''highColor'', ColorValue (highColor (colors s)))] \<rparr>]
         \<and> (objectName' \<noteq> ''outline'' \<and> objectName' \<noteq> ''colors''
              \<longrightarrow> enumerateObjectInstances objectName' this' = None)))
   \<and> (viewModel this0 = None \<longrightarrow> enumerateObjectInstances objectName' this0 = None)"
proof (intro conjI impI)
  assume a: "dataViews options = Some dvs \<and> update options this = Inr this' \<and> viewModel this' \<noteq> None"
  then obtain vm where vm: "viewModel this' = Some vm" by auto
  from a have "convertToViewModel (case elementAt dvs 0 of None \<Rightarrow> None | Some d \<Rightarrow> d) = Inr (viewModel this')"
    by (intro update_viewModel) auto
  with vm have s: "parseSettings (case elementAt dvs 0 of None \<Rightarrow> None | Some d \<Rightarrow> d) = Some (settings vm)"
    by (simp add: convertToViewModel_settings)
  show "\<exists>s. parseSettings (case elementAt dvs 0 of None \<Rightarrow> None | Some d \<Rightarrow> d) = Some s
         \<and> enumerateObjectInstances ''outline'' this' =
             Some [\<lparr> selector_inst = None, objectName_inst = ''outline'',
                     properties = [(''show'', BoolValue (showOutline (outline s))),
                                   (''size'', NumberValue (size_outline (outline s)))] \<rparr>]
         \<and> enumerateObjectInstances ''colors'' this' =
             Some [\<lparr> selector_inst = None, objectName_inst = ''colors'',
                     properties = [(''lowColor'', ColorValue (lowColor (colors s))),
                                   (''highColor'', ColorValue (highColor (colors s)))] \<rparr>]
         \<and> (objectName' \<noteq> ''outline'' \<and> objectName' \<noteq> ''colors''
              \<longrightarrow> enumerateObjectInstances objectName' this' = None)"
    using s vm
    by (intro exI[of _ "settings vm"])
       (simp add: enumerateObjectInstances_def enumerateOutlineOptions_def enumerateColorOptions_def)
next
  assume "viewModel this0 = None"
  then show "enumerateObjectInstances objectName' this0 = None"
    by (simp add: enumerateObjectInstances_def)
qed

theorem enumerate_after_update_witness:
  "(case update styledUpdate (init largeViewport) of
      Inr this' \<Rightarrow>
        enumerateObjectInstances ''outline'' this' =
          Some [\<lparr> selector_inst = None, objectName_inst = ''outline'',
                  properties = [(''show'', BoolValue False), (''size'', NumberValue 2)] \<rparr>]
        \<and> enumerateObjectInstances ''colors'' this' =
          Some [\<lparr> selector_inst = None, objectName_inst = ''colors'',
                  properties = [(''lowColor'', ColorValue ''Red''), (''highColor'', ColorValue ''Blue'')] \<rparr>]
        \<and> enumerateObjectInstances ''legend'' this' = None
    | Inl e \<Rightarrow> False)
   \<and> enumerateObjectInstances ''outline'' (init largeViewport) = None"
proof -
  let ?dvs = "[Some (dataViewOf (Some styledObjects) singleSeries)]"
  obtain this' where u: "update styledUpdate (init largeViewport) = Inr this'"
    and v: "viewModel this' \<noteq> None"
    using styledUpdate_returns by blast
  have d: "dataViews styledUpdate = Some ?dvs" by (simp add: styledUpdate_def)
  have s: "parseSettings (case elementAt ?dvs 0 of None \<Rightarrow> None | Some d \<Rightarrow> d) =
      Some \<lparr> outline = \<lparr> showOutline = False, size_outline = 2 \<rparr>,
             colors = \<lparr> highColor = ''Blue'', lowColor = ''Red'' \<rparr> \<rparr>"
    by (simp add: example_defs model_defs)
  have i: "viewModel (init largeViewport) = None" by (simp add: init_def)
  from enumerate_after_update [of styledUpdate ?dvs "init largeViewport" this' "''legend''" "init largeViewport"]
    d u v s i
  have "enumerateObjectInstances ''outline'' this' =
          Some [\<lparr> selector_inst = None, objectName_inst = ''outline'',
                  properties = [(''show'', BoolValue False), (''size'', NumberValue 2)] \<rparr>]
        \<and> enumerateObjectInstances ''colors'' this' =
          Some [\<lparr> selector_inst = None, objectName_inst = ''colors'',
                  properties = [(''lowColor'', ColorValue ''Red''), (''highColor'', ColorValue ''Blue'')] \<rparr>]
        \<and> enumerateObjectInstances ''legend'' this' = None
        \<and> enumerateObjectInstances ''legend'' (init largeViewport) = None"
    by auto
  moreover have "enumerateObjectInstances ''outline'' (init largeViewport) = None"
    using enumerate_after_update [of styledUpdate ?dvs "init largeViewport" this' "''outline''" "init largeViewport"] i
    by blast
  ultimately show ?thesis using u by simp
qed

subsection \<open>Geometry\<close>

text \<open>
  Claim C8. The viewport with margins has the width of the stored viewport less the left
  and right margins and its height less the top and bottom margins; \<open>isValid\<close> holds
  exactly when both of these are strictly positive; and when it does not hold,
  \<open>render\<close> leaves the visual as it is, performing no operation on the SVG tree.
\<close>

theorem geometry_valid_render:
  "width (getViewport g) = width (viewportNoMargins g) - left_margin (margin g) - right_margin (margin g)
   \<and> height (getViewport g) = height (viewportNoMargins g) - top_margin (margin g) - bottom_margin (margin g)
   \<and> (isValid g \<longleftrightarrow>
         0 < width (viewportNoMargins g) - left_margin (margin g) - right_margin (margin g)
         \<and> 0 < height (viewportNoMargins g) - top_margin (margin g) - bottom_margin (margin g))
   \<and> (\<not> isValid g \<longrightarrow> render vm g this = this)"
  by (simp add: getViewport_def isValid_def render_def split: option.split)

theorem geometry_valid_render_witness:
  "isValid \<lparr> margin = defaultMargin, viewportNoMargins = largeViewport \<rparr>
   \<and> \<not> isValid \<lparr> margin = defaultMargin, viewportNoMargins = smallViewport \<rparr>
   \<and> render (Some \<lparr> settings = getDefaultChartSettings, data = [], selector = SelectorNull \<rparr>)
        \<lparr> margin = defaultMargin, viewportNoMargins = smallViewport \<rparr> (init smallViewport)
      = init smallViewport"
  using geometry_valid_render [of "\<lparr> margin = defaultMargin, viewportNoMargins = smallViewport \<rparr>"
      "Some \<lparr> settings = getDefaultChartSettings, data = [], selector = SelectorNull \<rparr>" "init smallViewport"]
    geometry_valid_render [of "\<lparr> margin = defaultMargin, viewportNoMargins = largeViewport \<rparr>"
      "Some \<lparr> settings = getDefaultChartSettings, data = [], selector = SelectorNull \<rparr>" "init smallViewport"]
  by (simp add: defaultMargin_def smallViewport_def largeViewport_def)

subsection \<open>Hover lookup\<close>

text \<open>
  Claim C9. The hover lookup selects the data point whose index is the position rounded
  to the nearest integer; when the rounded index lies outside the indices of the data
  points, no data point is returned, the delegate draws nothing and yields no tooltip.
\<close>

theorem hover_lookup_round:
  "(0 \<le> round xIndex \<and> round xIndex < int (length (data vm))
      \<longrightarrow> getClosestDataPoint xIndex (data vm) = Some (data vm ! nat (round xIndex)))
   \<and> (round xIndex < 0 \<or> int (length (data vm)) \<le> round xIndex
      \<longrightarrow> getClosestDataPoint xIndex (data vm) = None
          \<and> tooltipInfoDelegate xIndex vm this = Inr (this, None))"
  by (auto simp: getClosestDataPoint_def Math_round_def round_def elementAt_def tooltipInfoDelegate_def)

theorem hover_lookup_round_witness:
  "getClosestDataPoint 1.5 (data exampleViewModel) = Some (examplePoint 2 1 4)
   \<and> getClosestDataPoint 2.5 (data exampleViewModel) = None
   \<and> getClosestDataPoint (- 0.6) (data exampleViewModel) = None
   \<and> tooltipInfoDelegate 2.5 exampleViewModel (init largeViewport) = Inr (init largeViewport, None)"
proof -
  have r: "round (3 / 2 :: real) = 2" "round (5 / 2 :: real) = 3" "round (- (3 / 5) :: real) = - 1"
    by (simp_all add: round_def)
  have len: "length (data exampleViewModel) = 3" by (simp add: exampleViewModel_def)
  have nth: "data exampleViewModel ! 2 = examplePoint 2 1 4" by (simp add: exampleViewModel_def)
  show ?thesis
    using hover_lookup_round [of "1.5" exampleViewModel "init largeViewport"]
      hover_lookup_round [of "2.5" exampleViewModel "init largeViewport"]
      hover_lookup_round [of "- 0.6" exampleViewModel "init largeViewport"]
    by (simp add: r len nth)
qed

subsection \<open>Settings are always defined\<close>

text \<open>
  Claim C10. \<open>parseSettings\<close> returns a settings object for every data view, absent
  ones and ones without metadata objects included, so the test for absent settings in
  \<open>convertToViewModel\<close> never fires: the view model is absent exactly when the data
  view is not structurally valid.
\<close>

theorem parseSettings_always_defined:
  "(\<exists>s. parseSettings dataView = Some s)
   \<and> (convertToViewModel dataView = Inr None \<longleftrightarrow> \<not> isDataViewValid dataView)"
proof
  show "\<exists>s. parseSettings dataView = Some s" by (rule parseSettings_Some)
next
  obtain s where s: "parseSettings dataView = Some s" using parseSettings_Some by blast
  show "convertToViewModel dataView = Inr None \<longleftrightarrow> \<not> isDataViewValid dataView"
  proof (cases "isDataViewValid dataView")
    case False
    then show ?thesis by (cases dataView) (simp_all add: convertToViewModel_def)
  next
    case True
    then obtain dv c c0 cs where "dataView = Some dv" "categorical dv = Some c" "categories c = Some (c0 # cs)"
      by (auto simp: isDataViewValid_def neq_Nil_conv split: option.splits)
    then show ?thesis using True s
      by (simp add: convertToViewModel_def Let_def split: sum.split)
  qed
qed

theorem parseSettings_always_defined_witness:
  "parseSettings None = Some getDefaultChartSettings
   \<and> convertToViewModel None = Inr None
   \<and> \<not> isDataViewValid (Some \<lparr> metadata = None, categorical = Some singleSeries \<rparr>)
   \<and> convertToViewModel (Some \<lparr> metadata = None, categorical = Some singleSeries \<rparr>) = Inr None"
proof -
  have a: "parseSettings None = Some getDefaultChartSettings"
    by (simp add: parseSettings_def getObjectsFromDataView_def)
  have b: "\<not> isDataViewValid None"
    "\<not> isDataViewValid (Some \<lparr> metadata = None, categorical = Some singleSeries \<rparr>)"
    by (simp_all add: isDataViewValid_def singleSeries_def categoricalOf_def)
  show ?thesis
    using a b parseSettings_always_defined [of None]
      parseSettings_always_defined [of "Some \<lparr> metadata = None, categorical = Some singleSeries \<rparr>"]
    by simp
qed

end
